theory Spec2Isabelle
  imports Complex_Main
begin

section \<open>The PATE accountant of \<^verbatim>\<open>pate_accountant.py\<close>\<close>

text \<open>
  A shallow embedding of class \<^verbatim>\<open>PATEPyTorch\<close>. Numbers are real numbers (the
  source computes in floating point; the model is exact arithmetic). Tensors and arrays
  are one-dimensional and modelled as lists. The object \<^verbatim>\<open>self\<close> is a record
  that every method takes and returns; a method that raises returns the error together
  with the object as it was mutated up to the raise. Every Gaussian draw
  \<^verbatim>\<open>normal(mean, std)\<close> is modelled as \<open>mean + std * z\<close> for a standard-normal
  draw \<open>z\<close> that the caller of the model supplies.
\<close>

subsection \<open>Errors and vectors\<close>

datatype error =
    AssertionError
  | TypeError
  | ValueError
  | RuntimeError
  | DivisionByZero

type_synonym vec = "real list"

text \<open>
  numpy's in-place \<^verbatim>\<open>a += b\<close> on a one-dimensional array \<open>a\<close>: \<open>b\<close> is broadcast
  to the shape of \<open>a\<close>, which works when the lengths agree or \<open>b\<close> has one element,
  and raises ValueError otherwise.
\<close>

definition np_iadd :: "vec \<Rightarrow> vec \<Rightarrow> error + vec" where
  "np_iadd a b =
     (if length b = length a then Inr (map2 (+) a b)
      else if length b = 1 then Inr (map (\<lambda>x. x + hd b) a)
      else Inl ValueError)"

text \<open>\<^verbatim>\<open>np.zeros(n)\<close> raises ValueError on a negative dimension.\<close>

definition np_zeros :: "int \<Rightarrow> error + vec" where
  "np_zeros n = (if n < 0 then Inl ValueError else Inr (replicate (nat n) 0))"

text \<open>
  \<^verbatim>\<open>torch.max\<close> and \<^verbatim>\<open>torch.argmax\<close> of a one-dimensional tensor; both raise
  on an empty tensor, and \<^verbatim>\<open>argmax\<close> returns the index of the first maximal value.
\<close>

definition pt_max :: "vec \<Rightarrow> error + real" where
  "pt_max v = (case v of [] \<Rightarrow> Inl RuntimeError | x # xs \<Rightarrow> Inr (foldl max x xs))"

definition pt_argmax :: "vec \<Rightarrow> error + nat" where
  "pt_argmax v =
     (case v of [] \<Rightarrow> Inl RuntimeError
      | x # xs \<Rightarrow> Inr (length (takeWhile (\<lambda>y. y \<noteq> foldl max x xs) v)))"

text \<open>
  \<^verbatim>\<open>votes - n * preds\<close> on one-dimensional tensors, with torch's broadcasting: the
  lengths agree, or one of the two tensors has a single element; otherwise RuntimeError.
\<close>

definition pt_sub_scaled :: "vec \<Rightarrow> int \<Rightarrow> vec \<Rightarrow> error + vec" where
  "pt_sub_scaled votes n preds =
     (if length preds = length votes then Inr (map2 (\<lambda>v p. v - of_int n * p) votes preds)
      else if length preds = 1 then Inr (map (\<lambda>v. v - of_int n * hd preds) votes)
      else if length votes = 1 then Inr (map (\<lambda>p. hd votes - of_int n * p) preds)
      else Inl RuntimeError)"

text \<open>
  \<^verbatim>\<open>torch.normal(mean, std)\<close> for a scalar mean. The standard deviation is an
  attribute that may be \<^verbatim>\<open>None\<close> (TypeError); a negative one is rejected
  (RuntimeError). \<open>z\<close> is the standard-normal draw.
\<close>

definition pt_normal :: "real \<Rightarrow> real option \<Rightarrow> real \<Rightarrow> error + real" where
  "pt_normal mean std z =
     (case std of None \<Rightarrow> Inl TypeError
      | Some sd \<Rightarrow> if sd < 0 then Inl RuntimeError else Inr (mean + sd * z))"

text \<open>The same for a tensor of means, with one draw per element, \<open>z i\<close> for element \<open>i\<close>.\<close>

definition pt_normal_vec :: "vec \<Rightarrow> real option \<Rightarrow> (nat \<Rightarrow> real) \<Rightarrow> error + vec" where
  "pt_normal_vec mean std z =
     (case std of None \<Rightarrow> Inl TypeError
      | Some sd \<Rightarrow> if sd < 0 then Inl RuntimeError
                 else Inr (map (\<lambda>i. mean ! i + sd * z i) [0..<length mean]))"

definition ones_like :: "vec \<Rightarrow> vec" where
  "ones_like v = replicate (length v) 1"

text \<open>\<^verbatim>\<open>np.random.normal(loc, scale)\<close> raises ValueError on a negative scale.\<close>

definition np_random_normal :: "real \<Rightarrow> real \<Rightarrow> real \<Rightarrow> error + real" where
  "np_random_normal loc scale z =
     (if scale < 0 then Inl ValueError else Inr (loc + scale * z))"

subsection \<open>The order grid\<close>

text \<open>
  \<^verbatim>\<open>np.arange(start, stop, step)\<close> has \<open>\<lceil>(stop - start) / step\<rceil>\<close> elements
  \<open>start + i * step\<close>; \<^verbatim>\<open>np.logspace(a, b, num)\<close> is \<open>10\<close> to the power of the
  \<open>num\<close> evenly spaced exponents from \<open>a\<close> to \<open>b\<close>; \<^verbatim>\<open>np.round\<close> rounds to the
  nearest integer, a tie to the even one.
\<close>

definition np_arange :: "real \<Rightarrow> real \<Rightarrow> real \<Rightarrow> vec" where
  "np_arange start stop step =
     map (\<lambda>i. start + real i * step) [0..<nat \<lceil>(stop - start) / step\<rceil>]"

definition np_linspace :: "real \<Rightarrow> real \<Rightarrow> nat \<Rightarrow> vec" where
  "np_linspace start stop num =
     map (\<lambda>i. start + real i * ((stop - start) / real (num - 1))) [0..<num]"

definition np_logspace :: "real \<Rightarrow> real \<Rightarrow> nat \<Rightarrow> vec" where
  "np_logspace start stop num = map (\<lambda>y. 10 powr y) (np_linspace start stop num)"

definition np_round :: "real \<Rightarrow> real" where
  "np_round x =
     (let f = \<lfloor>x\<rfloor>; d = x - of_int f
      in if d < 1 / 2 then of_int f
         else if 1 / 2 < d then of_int (f + 1)
         else if even f then of_int f else of_int (f + 1))"

definition get_orders :: "bool \<Rightarrow> vec" where
  "get_orders short_list =
     (if short_list
      then map np_round (np_arange 2 (50 + 1) 1 @ np_logspace (log 10 50) (log 10 1000) 20)
      else np_arange 2 (100 + 1) (1 / 2) @ np_logspace (log 10 100) (log 10 500) 100)"

subsection \<open>The privacy library and the accountant's state\<close>

text \<open>
  The functions imported from \<^verbatim>\<open>aliases\<close> are parameters of the model. A scale or
  threshold argument is an attribute that may be \<^verbatim>\<open>None\<close>, hence an option; the
  last argument of \<open>local_sensitivity\<close> is optional at the call site (\<open>None\<close> when the
  call leaves it out).
\<close>

record privacy_lib =
  get_log_q :: "vec \<Rightarrow> real option \<Rightarrow> vec"
  rdp_max_vote :: "real option \<Rightarrow> vec \<Rightarrow> vec \<Rightarrow> vec"
  rdp_threshold :: "real option \<Rightarrow> vec \<Rightarrow> real option \<Rightarrow> vec \<Rightarrow> vec"
  rdp_to_dp :: "vec \<Rightarrow> vec \<Rightarrow> real \<Rightarrow> real \<times> real"
  local_sensitivity ::
    "vec \<Rightarrow> int \<Rightarrow> real option \<Rightarrow> real option \<Rightarrow> real option option \<Rightarrow> vec"
  local_to_smooth_sens :: "real \<Rightarrow> vec \<Rightarrow> real"
  rdp_eps_release :: "real \<Rightarrow> real \<Rightarrow> real option \<Rightarrow> real"

text \<open>One entry per call of a library function, with the arguments of the call.\<close>

datatype ext_call =
    Call_get_log_q vec "real option"
  | Call_rdp_max_vote "real option" vec vec
  | Call_rdp_threshold "real option" vec "real option" vec
  | Call_rdp_to_dp vec vec real
  | Call_local_sensitivity vec int "real option" "real option" "real option option"
  | Call_local_to_smooth_sens real vec
  | Call_rdp_eps_release real real "real option"

type_synonym query_record = "vec \<times> vec \<times> bool"

text \<open>
  The attributes of the object. \<open>ext_calls\<close> is not an attribute: it records, in order,
  the library calls the methods have made on this object.
\<close>

record accountant =
  n_teachers :: int
  orders :: vec
  target_delta :: real
  sigma_votes :: real
  sigma_thresh :: "real option"
  sigma_eps_release :: real
  threshold_mode :: int
  threshold_T :: "real option"
  threshold_gamma :: "real option"
  rdp_eps_by_order :: vec
  votes_log :: "query_record list"
  selected_order :: "real option"
  data_dependent_eps :: "real option"
  ext_calls :: "ext_call list"

definition basic_mode :: int where "basic_mode = 0"
definition confident_mode :: int where "confident_mode = 1"
definition interactive_mode :: int where "interactive_mode = 2"

definition modes :: "(string \<times> int) list" where
  "modes = [(''basic'', basic_mode), (''confident'', confident_mode),
            (''interactive'', interactive_mode)]"

definition get_threshold_mode :: "string \<Rightarrow> error + int" where
  "get_threshold_mode threshold_mode' =
     (case map_of modes threshold_mode' of
        None \<Rightarrow> Inl AssertionError
      | Some m \<Rightarrow> Inr m)"

definition PATEPyTorch_init ::
  "real \<Rightarrow> real \<Rightarrow> int \<Rightarrow> real \<Rightarrow> string \<Rightarrow> real option \<Rightarrow> real option \<Rightarrow> real option
     \<Rightarrow> bool \<Rightarrow> error + accountant" where
  "PATEPyTorch_init target_delta' sigma_votes' n_teachers' sigma_eps_release'
       threshold_mode' threshold_t threshold_gamma' sigma_thresh' short_list_orders =
     (case get_threshold_mode threshold_mode' of
        Inl e \<Rightarrow> Inl e
      | Inr m \<Rightarrow>
          Inr \<lparr> n_teachers = n_teachers',
                orders = get_orders short_list_orders,
                target_delta = target_delta',
                sigma_votes = sigma_votes',
                sigma_thresh = sigma_thresh',
                sigma_eps_release = sigma_eps_release',
                threshold_mode = m,
                threshold_T = threshold_t,
                threshold_gamma = threshold_gamma',
                rdp_eps_by_order = replicate (length (get_orders short_list_orders)) 0,
                votes_log = [],
                selected_order = None,
                data_dependent_eps = None,
                ext_calls = [] \<rparr>)"

subsection \<open>Charging privacy loss and deciding a query\<close>

definition add_rdp_loss ::
  "privacy_lib \<Rightarrow> vec \<Rightarrow> real option \<Rightarrow> bool \<Rightarrow> accountant \<Rightarrow> (error + unit) \<times> accountant" where
  "add_rdp_loss L votes sigma thresh s =
     (if thresh then
        (let s1 = s\<lparr>ext_calls := ext_calls s @
                      [Call_rdp_threshold sigma (orders s) (threshold_T s) votes]\<rparr>
         in case np_iadd (rdp_eps_by_order s)
                   (rdp_threshold L sigma (orders s) (threshold_T s) votes) of
              Inl e \<Rightarrow> (Inl e, s1)
            | Inr r \<Rightarrow> (Inr (), s1\<lparr>rdp_eps_by_order := r\<rparr>))
      else
        (let q = get_log_q L votes sigma;
             s1 = s\<lparr>ext_calls := ext_calls s @
                      [Call_get_log_q votes sigma, Call_rdp_max_vote sigma (orders s) q]\<rparr>
         in case np_iadd (rdp_eps_by_order s) (rdp_max_vote L sigma (orders s) q) of
              Inl e \<Rightarrow> (Inl e, s1)
            | Inr r \<Rightarrow> (Inr (), s1\<lparr>rdp_eps_by_order := r\<rparr>)))"

text \<open>
  The gate test \<^verbatim>\<open>pt.max(v) + pt.normal(0., sigma_thresh) >= threshold_T\<close>, evaluated
  left to right; comparing with a threshold that is \<^verbatim>\<open>None\<close> raises TypeError.
\<close>

definition gate :: "vec \<Rightarrow> real option \<Rightarrow> real option \<Rightarrow> real \<Rightarrow> error + bool" where
  "gate v sigma T z =
     (case pt_max v of
        Inl e \<Rightarrow> Inl e
      | Inr m \<Rightarrow>
          (case pt_normal 0 sigma z of
             Inl e \<Rightarrow> Inl e
           | Inr nz \<Rightarrow>
               (case T of None \<Rightarrow> Inl TypeError | Some t \<Rightarrow> Inr (t \<le> m + nz))))"

text \<open>The test \<^verbatim>\<open>pt.max(preds) > threshold_gamma\<close>.\<close>

definition confident_student :: "vec \<Rightarrow> real option \<Rightarrow> error + bool" where
  "confident_student preds gam =
     (case pt_max preds of
        Inl e \<Rightarrow> Inl e
      | Inr pm \<Rightarrow> (case gam of None \<Rightarrow> Inl TypeError | Some g \<Rightarrow> Inr (g < pm)))"

text \<open>The standard-normal draws of one call of \<open>gn_max\<close>.\<close>

record draws =
  gate_z :: real
  vote_z :: "nat \<Rightarrow> real"

text \<open>
  The mode dispatch of \<open>gn_max\<close>: it yields \<open>(thresh_votes, release_votes,
  data_intependent_ret)\<close>.
\<close>

definition threshold_step ::
  "privacy_lib \<Rightarrow> draws \<Rightarrow> vec \<Rightarrow> vec \<Rightarrow> accountant
     \<Rightarrow> (error + vec \<times> bool \<times> nat option) \<times> accountant" where
  "threshold_step L d votes preds s =
     (if threshold_mode s = basic_mode then (Inr (votes, True, None), s)
      else if threshold_mode s = confident_mode then
        (case add_rdp_loss L votes (sigma_thresh s) True s of
           (Inl e, s1) \<Rightarrow> (Inl e, s1)
         | (Inr u, s1) \<Rightarrow>
             (case gate votes (sigma_thresh s1) (threshold_T s1) (gate_z d) of
                Inl e \<Rightarrow> (Inl e, s1)
              | Inr g \<Rightarrow> (Inr (votes, g, None), s1)))
      else if threshold_mode s = interactive_mode then
        (case pt_sub_scaled votes (n_teachers s) preds of
           Inl e \<Rightarrow> (Inl e, s)
         | Inr thresh_votes \<Rightarrow>
             (case add_rdp_loss L thresh_votes (sigma_thresh s) True s of
                (Inl e, s1) \<Rightarrow> (Inl e, s1)
              | (Inr u, s1) \<Rightarrow>
                  (case gate thresh_votes (sigma_thresh s1) (threshold_T s1) (gate_z d) of
                     Inl e \<Rightarrow> (Inl e, s1)
                   | Inr g \<Rightarrow>
                       if g then (Inr (thresh_votes, True, None), s1)
                       else
                         (case confident_student preds (threshold_gamma s1) of
                            Inl e \<Rightarrow> (Inl e, s1)
                          | Inr c \<Rightarrow>
                              if c then
                                (case pt_argmax preds of
                                   Inl e \<Rightarrow> (Inl e, s1)
                                 | Inr a \<Rightarrow> (Inr (thresh_votes, False, Some a), s1))
                              else (Inr (thresh_votes, False, None), s1)))))
      else (Inr (votes, False, None), s))"

definition gn_max ::
  "privacy_lib \<Rightarrow> draws \<Rightarrow> vec \<Rightarrow> vec \<Rightarrow> accountant \<Rightarrow> (error + nat option) \<times> accountant" where
  "gn_max L d votes preds s =
     (case threshold_step L d votes preds s of
        (Inl e, s1) \<Rightarrow> (Inl e, s1)
      | (Inr (thresh_votes, release_votes, data_intependent_ret), s1) \<Rightarrow>
          (let s2 = s1\<lparr>votes_log := votes_log s1 @ [(votes, thresh_votes, release_votes)]\<rparr>
           in if release_votes then
                (case add_rdp_loss L votes (Some (sigma_votes s2)) False s2 of
                   (Inl e, s3) \<Rightarrow> (Inl e, s3)
                 | (Inr u, s3) \<Rightarrow>
                     (case pt_normal_vec (ones_like votes) (sigma_thresh s3) (vote_z d) of
                        Inl e \<Rightarrow> (Inl e, s3)
                      | Inr noise \<Rightarrow>
                          (case pt_argmax (map2 (+) votes noise) of
                             Inl e \<Rightarrow> (Inl e, s3)
                           | Inr a \<Rightarrow> (Inr (Some a), s3))))
              else (Inr data_intependent_ret, s2)))"

text \<open>
  A sequence of calls on the same object. A call that raises leaves the object as it was
  mutated up to the raise, and the next call goes on from there.
\<close>

fun gn_max_calls :: "privacy_lib \<Rightarrow> (draws \<times> vec \<times> vec) list \<Rightarrow> accountant \<Rightarrow> accountant" where
  "gn_max_calls L [] s = s"
| "gn_max_calls L ((d, votes, preds) # qs) s = gn_max_calls L qs (snd (gn_max L d votes preds s))"

subsection \<open>Releasing the privacy loss\<close>

definition data_dependent_rdp :: "privacy_lib \<Rightarrow> accountant \<Rightarrow> real \<times> accountant" where
  "data_dependent_rdp L s =
     (case data_dependent_eps s of
        None \<Rightarrow>
          (case rdp_to_dp L (orders s) (rdp_eps_by_order s) (target_delta s) of
             (eps, order) \<Rightarrow>
               (eps, s\<lparr>selected_order := Some order,
                        data_dependent_eps := Some eps,
                        ext_calls := ext_calls s @
                          [Call_rdp_to_dp (orders s) (rdp_eps_by_order s) (target_delta s)]\<rparr>))
      | Some eps \<Rightarrow> (eps, s))"

text \<open>
  The body of the loop of \<open>release_epsilon_fixed_order\<close> for one record of the log, up
  to its \<^verbatim>\<open>return\<close>. \<open>order\<close>, \<open>eps\<close> and \<open>ls_by_dist_acc\<close> are the local variables
  \<^verbatim>\<open>order\<close>, \<^verbatim>\<open>data_dependent_eps\<close> and \<^verbatim>\<open>ls_by_dist_acc\<close>. The division
  \<^verbatim>\<open>0.4 / self.selected_order\<close> raises TypeError on \<^verbatim>\<open>None\<close>; on zero it raises
  (Python float) or leaves the real numbers (numpy float), either of which is the outcome
  \<open>DivisionByZero\<close> here. The mode test \<^verbatim>\<open>is not\<close> compares small integers, for
  which identity is equality.
\<close>

definition release_record ::
  "privacy_lib \<Rightarrow> real \<Rightarrow> accountant \<Rightarrow> real option \<Rightarrow> real \<Rightarrow> vec \<Rightarrow> query_record
     \<Rightarrow> (error + real \<times> real \<times> real) \<times> accountant" where
  "release_record L z s order eps ls_by_dist_acc r =
     (case r of (votes, thresh_votes, released) \<Rightarrow>
       (case (if threshold_mode s \<noteq> basic_mode
              then (np_iadd ls_by_dist_acc
                      (local_sensitivity L thresh_votes (n_teachers s) (sigma_thresh s) order
                         (Some (threshold_T s))),
                    s\<lparr>ext_calls := ext_calls s @
                        [Call_local_sensitivity thresh_votes (n_teachers s) (sigma_thresh s)
                           order (Some (threshold_T s))]\<rparr>)
              else (Inr ls_by_dist_acc, s)) of
          (Inl e, s1) \<Rightarrow> (Inl e, s1)
        | (Inr acc1, s1) \<Rightarrow>
            (case (if released
                   then (np_iadd acc1
                           (local_sensitivity L votes (n_teachers s1) (Some (sigma_votes s1))
                              order None),
                         s1\<lparr>ext_calls := ext_calls s1 @
                             [Call_local_sensitivity votes (n_teachers s1)
                                (Some (sigma_votes s1)) order None]\<rparr>)
                   else (Inr acc1, s1)) of
               (Inl e, s2) \<Rightarrow> (Inl e, s2)
             | (Inr acc2, s2) \<Rightarrow>
                 (case selected_order s2 of
                    None \<Rightarrow> (Inl TypeError, s2)
                  | Some so \<Rightarrow>
                      if so = 0 then (Inl DivisionByZero, s2)
                      else
                        (let beta = (4 / 10) / so;
                             smooth_s = local_to_smooth_sens L beta acc2;
                             eps_release_rdp =
                               rdp_eps_release L beta (sigma_eps_release s2) order;
                             s3 = s2\<lparr>ext_calls := ext_calls s2 @
                                     [Call_local_to_smooth_sens beta acc2,
                                      Call_rdp_eps_release beta (sigma_eps_release s2) order]\<rparr>;
                             release_mean = eps + eps_release_rdp;
                             release_sdev = smooth_s * sigma_eps_release s3
                         in case np_random_normal release_mean release_sdev z of
                              Inl e \<Rightarrow> (Inl e, s3)
                            | Inr release_sample \<Rightarrow>
                                (Inr (release_sample, release_mean, release_sdev), s3))))))"

text \<open>
  The loop over the log. Its body ends in \<^verbatim>\<open>return\<close>, so the first record is the only
  one visited; over an empty log the method falls off its end and returns \<^verbatim>\<open>None\<close>.
\<close>

fun release_loop ::
  "privacy_lib \<Rightarrow> real \<Rightarrow> accountant \<Rightarrow> real option \<Rightarrow> real \<Rightarrow> vec \<Rightarrow> query_record list
     \<Rightarrow> (error + (real \<times> real \<times> real) option) \<times> accountant" where
  "release_loop L z s order eps ls_by_dist_acc [] = (Inr None, s)"
| "release_loop L z s order eps ls_by_dist_acc (r # rest) =
     (case release_record L z s order eps ls_by_dist_acc r of
        (Inl e, s') \<Rightarrow> (Inl e, s')
      | (Inr res, s') \<Rightarrow> (Inr (Some res), s'))"

definition release_epsilon_fixed_order ::
  "privacy_lib \<Rightarrow> real \<Rightarrow> accountant
     \<Rightarrow> (error + (real \<times> real \<times> real) option) \<times> accountant" where
  "release_epsilon_fixed_order L z s =
     (let order = selected_order s
      in case data_dependent_rdp L s of
           (eps, s1) \<Rightarrow>
             (case np_zeros (n_teachers s1) of
                Inl e \<Rightarrow> (Inl e, s1)
              | Inr ls_by_dist_acc \<Rightarrow>
                  release_loop L z s1 order eps ls_by_dist_acc (votes_log s1)))"

subsection \<open>Auxiliary notions and example inputs\<close>

text \<open>The library's two cost functions return vectors without negative entries.\<close>

definition nonneg_costs :: "privacy_lib \<Rightarrow> bool" where
  "nonneg_costs L \<longleftrightarrow>
     (\<forall>sigma ords T v. \<forall>x \<in> set (rdp_threshold L sigma ords T v). 0 \<le> x) \<and>
     (\<forall>sigma ords q. \<forall>x \<in> set (rdp_max_vote L sigma ords q). 0 \<le> x)"

text \<open>The library calls that take the Renyi order as an argument.\<close>

fun takes_order :: "ext_call \<Rightarrow> bool" where
  "takes_order (Call_local_sensitivity v n sigma ord T) = True"
| "takes_order (Call_rdp_eps_release beta sigma ord) = True"
| "takes_order c = False"

text \<open>
  A library instance, draws and four freshly constructed accountants, one per way of
  configuring the class, on which the theorems below are instantiated.
\<close>

definition lib_example :: privacy_lib where
  "lib_example =
     \<lparr> get_log_q = (\<lambda>votes sigma. votes),
       rdp_max_vote = (\<lambda>sigma ords q. replicate (length ords) 1),
       rdp_threshold = (\<lambda>sigma ords T v. replicate (length ords) 2),
       rdp_to_dp = (\<lambda>ords rdp delta. (3, 2)),
       local_sensitivity =
         (\<lambda>v n sigma ord T. replicate (nat n) (case ord of None \<Rightarrow> 1 | Some a \<Rightarrow> a)),
       local_to_smooth_sens = (\<lambda>beta ls. beta * sum_list ls),
       rdp_eps_release = (\<lambda>beta sigma ord. case ord of None \<Rightarrow> 0 | Some a \<Rightarrow> beta) \<rparr>"

definition draws_example :: draws where
  "draws_example = \<lparr> gate_z = 0, vote_z = (\<lambda>i. if i = 1 then 1 / 2 else 0) \<rparr>"

definition acct_basic_default :: accountant where
  "acct_basic_default =
     projr (PATEPyTorch_init (1 / 100000) 1 5 1 ''basic'' None None None True)"

definition acct_basic :: accountant where
  "acct_basic =
     projr (PATEPyTorch_init (1 / 100000) 1 5 1 ''basic'' None None (Some 10) True)"

definition acct_confident :: accountant where
  "acct_confident =
     projr (PATEPyTorch_init (1 / 100000) 1 5 1 ''confident'' (Some 5) None (Some 1) True)"

definition acct_interactive :: accountant where
  "acct_interactive =
     projr (PATEPyTorch_init (1 / 100000) 1 5 1 ''interactive'' (Some 5) (Some (1 / 2))
       (Some 1) True)"

text \<open>
  An accountant that has answered two queries in confident mode, and the same accountant
  after one call of \<open>release_epsilon_fixed_order\<close>.
\<close>

definition acct_logged :: accountant where
  "acct_logged =
     gn_max_calls lib_example
       [(draws_example, [10, 0, 0], [1, 0, 0]), (draws_example, [2, 1, 0], [1, 0, 0])]
       acct_confident"

definition acct_released :: accountant where
  "acct_released = snd (release_epsilon_fixed_order lib_example (1 / 2) acct_logged)"

text \<open>
  The calls that take the order, as the loop body of \<open>release_epsilon_fixed_order\<close> makes
  them for the record \<open>r\<close> when its local variable \<^verbatim>\<open>order\<close> is \<open>order\<close> and the
  attribute \<^verbatim>\<open>selected_order\<close> is \<open>so\<close>.
\<close>

definition order_calls :: "accountant \<Rightarrow> query_record \<Rightarrow> real option \<Rightarrow> real \<Rightarrow> ext_call list" where
  "order_calls s r order so =
     (case r of (votes, thresh_votes, released) \<Rightarrow>
        (if threshold_mode s \<noteq> basic_mode
         then [Call_local_sensitivity thresh_votes (n_teachers s) (sigma_thresh s) order
                 (Some (threshold_T s))]
         else []) @
        (if released
         then [Call_local_sensitivity votes (n_teachers s) (Some (sigma_votes s)) order None]
         else []) @
        [Call_rdp_eps_release ((4 / 10) / so) (sigma_eps_release s) order])"

text \<open>The rounded log-spaced values of the short order grid.\<close>

definition short_tail :: "real list" where
  "short_tail = [50, 59, 69, 80, 94, 110, 129, 151, 177, 207, 242, 283, 332, 388, 455, 532,
                 623, 730, 854, 1000]"

lemmas init_defs = PATEPyTorch_init_def get_threshold_mode_def modes_def

lemmas gn_max_defs =
  gn_max_def threshold_step_def add_rdp_loss_def gate_def confident_student_def
  np_iadd_def pt_max_def pt_argmax_def pt_normal_def pt_normal_vec_def pt_sub_scaled_def
  ones_like_def Let_def basic_mode_def confident_mode_def interactive_mode_def
  lib_example_def draws_example_def

lemmas release_defs =
  release_epsilon_fixed_order_def data_dependent_rdp_def release_record_def np_zeros_def
  np_iadd_def np_random_normal_def Let_def basic_mode_def confident_mode_def lib_example_def
  sum_list_replicate


section \<open>Properties\<close>

subsection \<open>The accumulated loss never decreases\<close>

lemma np_iadd_mono:
  assumes "np_iadd a b = Inr r" and "\<forall>x \<in> set b. 0 \<le> x"
  shows "list_all2 (\<le>) a r"
proof (cases "length b = length a")
  case True
  with assms have r: "r = map2 (+) a b" by (simp add: np_iadd_def)
  show ?thesis unfolding r using True assms(2)
    by (auto simp: list_all2_conv_all_nth)
next
  case False
  with assms have r: "r = map (\<lambda>x. x + hd b) a" and l: "length b = 1"
    by (auto simp: np_iadd_def split: if_splits)
  from l have "hd b \<in> set b" by (cases b) auto
  with assms(2) have "0 \<le> hd b" by blast
  then show ?thesis unfolding r by (simp add: list_all2_conv_all_nth)
qed



lemma add_rdp_loss_mono:
  assumes "nonneg_costs L"
  shows "list_all2 (\<le>) (rdp_eps_by_order s) (rdp_eps_by_order (snd (add_rdp_loss L v sigma th s)))"
proof (cases th)
  case True
  let ?c = "rdp_threshold L sigma (orders s) (threshold_T s) v"
  have nn: "\<forall>x \<in> set ?c. 0 \<le> x" using assms by (simp add: nonneg_costs_def)
  show ?thesis
  proof (cases "np_iadd (rdp_eps_by_order s) ?c")
    case (Inl e)
    with True show ?thesis by (simp add: add_rdp_loss_def Let_def list_all2_refl)
  next
    case (Inr r)
    with True np_iadd_mono[OF Inr nn] show ?thesis by (simp add: add_rdp_loss_def Let_def)
  qed
next
  case False
  let ?c = "rdp_max_vote L sigma (orders s) (get_log_q L v sigma)"
  have nn: "\<forall>x \<in> set ?c. 0 \<le> x" using assms by (simp add: nonneg_costs_def)
  show ?thesis
  proof (cases "np_iadd (rdp_eps_by_order s) ?c")
    case (Inl e)
    with False show ?thesis by (simp add: add_rdp_loss_def Let_def list_all2_refl)
  next
    case (Inr r)
    with False np_iadd_mono[OF Inr nn] show ?thesis by (simp add: add_rdp_loss_def Let_def)
  qed
qed


lemma threshold_step_mono:
  assumes "nonneg_costs L"
  shows "list_all2 (\<le>) (rdp_eps_by_order s) (rdp_eps_by_order (snd (threshold_step L d v p s)))"
  using add_rdp_loss_mono[OF assms]
  by (simp add: threshold_step_def split_beta list_all2_refl split: sum.splits)

lemma gn_max_state:
  "snd (gn_max L d v p s) =
     (case threshold_step L d v p s of
        (Inl e, s1) \<Rightarrow> s1
      | (Inr (tv, rel, ret), s1) \<Rightarrow>
          if rel
          then snd (add_rdp_loss L v (Some (sigma_votes s1)) False
                 (s1\<lparr>votes_log := votes_log s1 @ [(v, tv, rel)]\<rparr>))
          else s1\<lparr>votes_log := votes_log s1 @ [(v, tv, rel)]\<rparr>)"
  by (simp add: gn_max_def Let_def split: sum.splits prod.splits)

lemma gn_max_mono:
  assumes "nonneg_costs L"
  shows "list_all2 (\<le>) (rdp_eps_by_order s) (rdp_eps_by_order (snd (gn_max L d v p s)))"
proof -
  obtain r s1 where ts: "threshold_step L d v p s = (r, s1)" by fastforce
  have m1: "list_all2 (\<le>) (rdp_eps_by_order s) (rdp_eps_by_order s1)"
    using threshold_step_mono[OF assms, of s d v p] ts by simp
  show ?thesis
  proof (cases r)
    case (Inl e)
    with ts m1 show ?thesis by (simp add: gn_max_state)
  next
    case (Inr t)
    obtain tv rel ret where t: "t = (tv, rel, ret)" by (cases t) auto
    let ?s2 = "s1\<lparr>votes_log := votes_log s1 @ [(v, tv, rel)]\<rparr>"
    show ?thesis
    proof (cases rel)
      case True
      have "list_all2 (\<le>) (rdp_eps_by_order ?s2)
              (rdp_eps_by_order (snd (add_rdp_loss L v (Some (sigma_votes s1)) False ?s2)))"
        by (rule add_rdp_loss_mono[OF assms])
      then have "list_all2 (\<le>) (rdp_eps_by_order s1)
              (rdp_eps_by_order (snd (add_rdp_loss L v (Some (sigma_votes s1)) False ?s2)))"
        by simp
      with m1 have "list_all2 (\<le>) (rdp_eps_by_order s)
              (rdp_eps_by_order (snd (add_rdp_loss L v (Some (sigma_votes s1)) False ?s2)))"
        by (rule list_all2_trans[rotated]) simp
      with ts Inr t True show ?thesis by (simp add: gn_max_state)
    next
      case False
      with ts Inr t m1 show ?thesis by (simp add: gn_max_state)
    qed
  qed
qed

lemma gn_max_calls_append:
  "gn_max_calls L (qs @ qs') s = gn_max_calls L qs' (gn_max_calls L qs s)"
  by (induction qs arbitrary: s) auto

lemma gn_max_calls_mono:
  assumes "nonneg_costs L"
  shows "list_all2 (\<le>) (rdp_eps_by_order s) (rdp_eps_by_order (gn_max_calls L qs s))"
proof (induction qs arbitrary: s)
  case Nil
  show ?case by (simp add: list_all2_refl)
next
  case (Cons q qs)
  obtain d v p where q: "q = (d, v, p)" by (cases q) auto
  have "list_all2 (\<le>) (rdp_eps_by_order s) (rdp_eps_by_order (snd (gn_max L d v p s)))"
    by (rule gn_max_mono[OF assms])
  moreover have "list_all2 (\<le>) (rdp_eps_by_order (snd (gn_max L d v p s)))
                   (rdp_eps_by_order (gn_max_calls L qs (snd (gn_max L d v p s))))"
    by (rule Cons.IH)
  ultimately show ?case unfolding q gn_max_calls.simps
    by (rule list_all2_trans[rotated]) simp
qed

text \<open>
  C1: if the two cost functions return vectors without negative entries, then over any
  sequence of calls of \<open>gn_max\<close>, in any mode and whether or not a call raises, the
  vector \<open>rdp_eps_by_order\<close> keeps its length and no entry ever decreases: after any
  further calls \<open>qs'\<close> every entry is at least what it was after the calls \<open>qs\<close>.
\<close>

theorem rdp_eps_by_order_monotone:
  assumes "nonneg_costs L"
  shows "list_all2 (\<le>) (rdp_eps_by_order (gn_max_calls L qs s))
           (rdp_eps_by_order (gn_max_calls L (qs @ qs') s))"
  unfolding gn_max_calls_append by (rule gn_max_calls_mono[OF assms])

lemma nonneg_costs_example: "nonneg_costs lib_example"
  by (simp add: nonneg_costs_def lib_example_def)

theorem rdp_eps_by_order_monotone_witness:
  "nonneg_costs lib_example \<and>
   list_all2 (\<le>)
     (rdp_eps_by_order
        (gn_max_calls lib_example [(draws_example, [1, 0], [1, 0])] acct_confident))
     (rdp_eps_by_order
        (gn_max_calls lib_example
           ([(draws_example, [1, 0], [1, 0])] @ [(draws_example, [10, 0], [1, 0])])
           acct_confident))"
  using nonneg_costs_example
    rdp_eps_by_order_monotone[OF nonneg_costs_example,
      of "[(draws_example, [1, 0], [1, 0])]" acct_confident
         "[(draws_example, [10, 0], [1, 0])]"]
  by (rule conjI)

subsection \<open>The example accountants, evaluated\<close>

lemma acct_basic_default_eq:
  "acct_basic_default =
     \<lparr> n_teachers = 5, orders = get_orders True, target_delta = 1 / 100000,
       sigma_votes = 1, sigma_thresh = None, sigma_eps_release = 1,
       threshold_mode = basic_mode, threshold_T = None, threshold_gamma = None,
       rdp_eps_by_order = replicate (length (get_orders True)) 0,
       votes_log = [], selected_order = None, data_dependent_eps = None, ext_calls = [] \<rparr>"
  by (simp add: acct_basic_default_def PATEPyTorch_init_def get_threshold_mode_def modes_def)

lemma acct_basic_eq:
  "acct_basic =
     \<lparr> n_teachers = 5, orders = get_orders True, target_delta = 1 / 100000,
       sigma_votes = 1, sigma_thresh = Some 10, sigma_eps_release = 1,
       threshold_mode = basic_mode, threshold_T = None, threshold_gamma = None,
       rdp_eps_by_order = replicate (length (get_orders True)) 0,
       votes_log = [], selected_order = None, data_dependent_eps = None, ext_calls = [] \<rparr>"
  by (simp add: acct_basic_def PATEPyTorch_init_def get_threshold_mode_def modes_def)

lemma acct_confident_eq:
  "acct_confident =
     \<lparr> n_teachers = 5, orders = get_orders True, target_delta = 1 / 100000,
       sigma_votes = 1, sigma_thresh = Some 1, sigma_eps_release = 1,
       threshold_mode = confident_mode, threshold_T = Some 5, threshold_gamma = None,
       rdp_eps_by_order = replicate (length (get_orders True)) 0,
       votes_log = [], selected_order = None, data_dependent_eps = None, ext_calls = [] \<rparr>"
  by (simp add: acct_confident_def PATEPyTorch_init_def get_threshold_mode_def modes_def)

lemma acct_interactive_eq:
  "acct_interactive =
     \<lparr> n_teachers = 5, orders = get_orders True, target_delta = 1 / 100000,
       sigma_votes = 1, sigma_thresh = Some 1, sigma_eps_release = 1,
       threshold_mode = interactive_mode, threshold_T = Some 5,
       threshold_gamma = Some (1 / 2),
       rdp_eps_by_order = replicate (length (get_orders True)) 0,
       votes_log = [], selected_order = None, data_dependent_eps = None, ext_calls = [] \<rparr>"
  by (simp add: acct_interactive_def PATEPyTorch_init_def get_threshold_mode_def modes_def)

lemma length_get_orders_short: "length (get_orders True) = 69"
  by (simp add: get_orders_def np_arange_def np_logspace_def np_linspace_def)

lemma acct_logged_eq:
  "acct_logged =
     \<lparr> n_teachers = 5, orders = get_orders True, target_delta = 1 / 100000,
       sigma_votes = 1, sigma_thresh = Some 1, sigma_eps_release = 1,
       threshold_mode = confident_mode, threshold_T = Some 5, threshold_gamma = None,
       rdp_eps_by_order = replicate (length (get_orders True)) 5,
       votes_log = [([10, 0, 0], [10, 0, 0], True), ([2, 1, 0], [2, 1, 0], False)],
       selected_order = None, data_dependent_eps = None,
       ext_calls =
         [Call_rdp_threshold (Some 1) (get_orders True) (Some 5) [10, 0, 0],
          Call_get_log_q [10, 0, 0] (Some 1),
          Call_rdp_max_vote (Some 1) (get_orders True) [10, 0, 0],
          Call_rdp_threshold (Some 1) (get_orders True) (Some 5) [2, 1, 0]] \<rparr>"
  by (simp add: acct_logged_def acct_confident_eq gn_max_def threshold_step_def
      add_rdp_loss_def gate_def np_iadd_def pt_max_def pt_argmax_def pt_normal_def
      pt_normal_vec_def ones_like_def Let_def basic_mode_def confident_mode_def
      lib_example_def draws_example_def)

lemma release_acct_logged:
  "release_epsilon_fixed_order lib_example (1 / 2) acct_logged =
     (Inr (Some (4, 3, 2)),
      acct_logged\<lparr>selected_order := Some 2, data_dependent_eps := Some 3,
        ext_calls := ext_calls acct_logged @
          [Call_rdp_to_dp (get_orders True) (replicate (length (get_orders True)) 5)
             (1 / 100000),
           Call_local_sensitivity [10, 0, 0] 5 (Some 1) None (Some (Some 5)),
           Call_local_sensitivity [10, 0, 0] 5 (Some 1) None None,
           Call_local_to_smooth_sens (1 / 5) (replicate 5 2),
           Call_rdp_eps_release (1 / 5) 1 None]\<rparr>)"
  by (simp add: acct_logged_eq release_defs)

lemma release_acct_released:
  "release_epsilon_fixed_order lib_example (1 / 2) acct_released =
     (Inr (Some (26 / 5, 16 / 5, 4)),
      acct_released\<lparr>ext_calls := ext_calls acct_released @
          [Call_local_sensitivity [10, 0, 0] 5 (Some 1) (Some 2) (Some (Some 5)),
           Call_local_sensitivity [10, 0, 0] 5 (Some 1) (Some 2) None,
           Call_local_to_smooth_sens (1 / 5) (replicate 5 4),
           Call_rdp_eps_release (1 / 5) 1 (Some 2)]\<rparr>)"
  unfolding acct_released_def release_acct_logged snd_conv
  by (simp add: acct_logged_eq release_defs)

subsection \<open>Construction\<close>

text \<open>
  C6, as the code has it: the constructor raises exactly when the mode name is not one of
  \<^verbatim>\<open>'basic'\<close>, \<^verbatim>\<open>'confident'\<close>, \<^verbatim>\<open>'interactive'\<close>, and then by the assertion of
  \<open>get_threshold_mode\<close>. The optional parameters \<^verbatim>\<open>threshold_t\<close>,
  \<^verbatim>\<open>threshold_gamma\<close> and \<^verbatim>\<open>sigma_thresh\<close> are not looked at: with a known mode
  name the accountant is constructed whatever they are, \<^verbatim>\<open>None\<close> included, and stores
  them as given.
\<close>

theorem init_checks_mode_name_only:
  "isl (PATEPyTorch_init d sv n se name T g st short) =
     (name \<notin> set [''basic'', ''confident'', ''interactive'']) \<and>
   (PATEPyTorch_init d sv n se name T g st short = Inl AssertionError) =
     (name \<notin> set [''basic'', ''confident'', ''interactive'']) \<and>
   (name \<in> set [''basic'', ''confident'', ''interactive''] \<longrightarrow>
      threshold_T (projr (PATEPyTorch_init d sv n se name T g st short)) = T \<and>
      threshold_gamma (projr (PATEPyTorch_init d sv n se name T g st short)) = g \<and>
      sigma_thresh (projr (PATEPyTorch_init d sv n se name T g st short)) = st)"
  by (simp add: init_defs)

theorem init_checks_mode_name_only_witness:
  "''confident'' \<in> set [''basic'', ''confident'', ''interactive''] \<and>
   \<not> isl (PATEPyTorch_init (1 / 100000) 1 5 1 ''confident'' None None None True) \<and>
   threshold_T
     (projr (PATEPyTorch_init (1 / 100000) 1 5 1 ''confident'' None None None True)) = None \<and>
   sigma_thresh
     (projr (PATEPyTorch_init (1 / 100000) 1 5 1 ''confident'' None None None True)) = None"
  using init_checks_mode_name_only[of "1 / 100000" 1 5 1 "''confident''" None None None True]
  by simp

text \<open>
  Against C6 as stated: interactive mode with none of its three parameters is constructed
  without error, and the parameters are \<^verbatim>\<open>None\<close> in the object.
\<close>

theorem init_missing_parameters_counterexample:
  "\<not> isl (PATEPyTorch_init (1 / 100000) 1 5 1 ''interactive'' None None None True) \<and>
   threshold_mode
     (projr (PATEPyTorch_init (1 / 100000) 1 5 1 ''interactive'' None None None True)) =
     interactive_mode \<and>
   threshold_T
     (projr (PATEPyTorch_init (1 / 100000) 1 5 1 ''interactive'' None None None True)) = None \<and>
   threshold_gamma
     (projr (PATEPyTorch_init (1 / 100000) 1 5 1 ''interactive'' None None None True)) = None \<and>
   sigma_thresh
     (projr (PATEPyTorch_init (1 / 100000) 1 5 1 ''interactive'' None None None True)) = None"
  by (simp add: init_defs)

subsection \<open>Confident mode\<close>

text \<open>
  C7: in confident mode, when \<open>max votes\<close> plus the gate noise \<open>sg * gate_z d\<close> is below
  \<open>threshold_T\<close> (and the threshold cost has the accumulator's shape), \<open>gn_max\<close> returns
  \<^verbatim>\<open>None\<close>; the only library call of the round is one call of \<open>rdp_threshold\<close>, whose
  result is added to the accumulator; nothing is charged for a release, and the log gains
  the record \<open>(votes, votes, False)\<close>.
\<close>

theorem confident_below_threshold:
  assumes "threshold_mode s = confident_mode"
    and "sigma_thresh s = Some sg" and "0 \<le> sg"
    and "threshold_T s = Some T"
    and "pt_max votes = Inr m"
    and "m + sg * gate_z d < T"
    and "np_iadd (rdp_eps_by_order s) (rdp_threshold L (Some sg) (orders s) (Some T) votes) = Inr r"
  shows "gn_max L d votes preds s =
           (Inr None,
            s\<lparr>rdp_eps_by_order := r,
              votes_log := votes_log s @ [(votes, votes, False)],
              ext_calls := ext_calls s @ [Call_rdp_threshold (Some sg) (orders s) (Some T) votes]\<rparr>)"
  using assms
  by (simp add: gn_max_def threshold_step_def add_rdp_loss_def gate_def pt_normal_def
      basic_mode_def confident_mode_def Let_def)

text \<open>The instance with the gate noise forced to zero: \<open>max votes = 2 < 5\<close>.\<close>

theorem confident_below_threshold_witness:
  "threshold_mode acct_confident = confident_mode \<and>
   sigma_thresh acct_confident = Some 1 \<and> (0::real) \<le> 1 \<and>
   threshold_T acct_confident = Some 5 \<and>
   pt_max [2, 1, 0] = Inr 2 \<and>
   2 + 1 * gate_z draws_example < (5::real) \<and>
   gate_z draws_example = 0 \<and>
   gn_max lib_example draws_example [2, 1, 0] [1, 0, 0] acct_confident =
     (Inr None,
      acct_confident\<lparr>rdp_eps_by_order := replicate (length (get_orders True)) 2,
        votes_log := [([2, 1, 0], [2, 1, 0], False)],
        ext_calls := [Call_rdp_threshold (Some 1) (get_orders True) (Some 5) [2, 1, 0]]\<rparr>)"
  using confident_below_threshold[of acct_confident 1 5 "[2, 1, 0]" 2 draws_example lib_example
      "replicate (length (get_orders True)) 2" "[1, 0, 0]"]
  by (simp add: acct_confident_eq pt_max_def draws_example_def lib_example_def np_iadd_def)

subsection \<open>Interactive mode\<close>

text \<open>
  C3, as the code has it: in interactive mode, when the gate statistic is below
  \<open>threshold_T\<close> and \<open>max preds\<close> exceeds \<open>threshold_gamma\<close>, \<open>gn_max\<close> returns
  \<open>argmax preds\<close>. The round is not free: the threshold cost on \<open>thresh_votes\<close> was added
  to the accumulator before the gate was tested. No release cost is charged: the one
  library call of the round is that call of \<open>rdp_threshold\<close>.
\<close>

theorem interactive_student_label:
  assumes "threshold_mode s = interactive_mode"
    and "sigma_thresh s = Some sg" and "0 \<le> sg"
    and "threshold_T s = Some T"
    and "threshold_gamma s = Some g"
    and "pt_sub_scaled votes (n_teachers s) preds = Inr tv"
    and "pt_max tv = Inr m"
    and "m + sg * gate_z d < T"
    and "pt_max preds = Inr pm"
    and "g < pm"
    and "np_iadd (rdp_eps_by_order s) (rdp_threshold L (Some sg) (orders s) (Some T) tv) = Inr r"
  shows "\<exists>a. pt_argmax preds = Inr a \<and>
           gn_max L d votes preds s =
             (Inr (Some a),
              s\<lparr>rdp_eps_by_order := r,
                votes_log := votes_log s @ [(votes, tv, False)],
                ext_calls := ext_calls s @ [Call_rdp_threshold (Some sg) (orders s) (Some T) tv]\<rparr>)"
proof -
  from assms(9) obtain x xs where p: "preds = x # xs"
    by (cases preds) (auto simp: pt_max_def)
  then obtain a where a: "pt_argmax preds = Inr a" by (simp add: pt_argmax_def)
  with assms show ?thesis
    by (simp add: gn_max_def threshold_step_def add_rdp_loss_def gate_def pt_normal_def
        confident_student_def basic_mode_def confident_mode_def interactive_mode_def Let_def)
qed

theorem interactive_student_label_witness:
  "threshold_mode acct_interactive = interactive_mode \<and>
   sigma_thresh acct_interactive = Some 1 \<and> (0::real) \<le> 1 \<and>
   threshold_T acct_interactive = Some 5 \<and>
   threshold_gamma acct_interactive = Some (1 / 2) \<and>
   pt_sub_scaled [5, 0, 0] (n_teachers acct_interactive) [1, 0, 0] = Inr [0, 0, 0] \<and>
   pt_max [0, 0, 0] = Inr 0 \<and>
   0 + 1 * gate_z draws_example < (5::real) \<and>
   pt_max [1, 0, 0] = Inr 1 \<and> (1 / 2 :: real) < 1 \<and>
   (\<exists>a. pt_argmax [1, 0, 0] = Inr a \<and>
     gn_max lib_example draws_example [5, 0, 0] [1, 0, 0] acct_interactive =
     (Inr (Some a),
      acct_interactive\<lparr>rdp_eps_by_order := replicate (length (get_orders True)) 2,
        votes_log := [([5, 0, 0], [0, 0, 0], False)],
        ext_calls := [Call_rdp_threshold (Some 1) (get_orders True) (Some 5) [0, 0, 0]]\<rparr>))"
  using interactive_student_label[of acct_interactive 1 5 "1 / 2" "[5, 0, 0]" "[1, 0, 0]"
      "[0, 0, 0]" 0 draws_example 1 lib_example "replicate (length (get_orders True)) 2"]
  by (simp add: acct_interactive_eq pt_max_def pt_sub_scaled_def draws_example_def
      lib_example_def np_iadd_def)

text \<open>
  Against C3 as stated: a round that returns the student's label \<open>0\<close> and yet raises the
  first entry of the accumulator from \<open>0\<close> to \<open>2\<close>.
\<close>

theorem interactive_student_label_counterexample:
  "threshold_mode acct_interactive = interactive_mode \<and>
   gate [0, 0, 0] (sigma_thresh acct_interactive) (threshold_T acct_interactive)
     (gate_z draws_example) = Inr False \<and>
   confident_student [1, 0, 0] (threshold_gamma acct_interactive) = Inr True \<and>
   fst (gn_max lib_example draws_example [5, 0, 0] [1, 0, 0] acct_interactive) = Inr (Some 0) \<and>
   rdp_eps_by_order acct_interactive ! 0 = 0 \<and>
   rdp_eps_by_order
     (snd (gn_max lib_example draws_example [5, 0, 0] [1, 0, 0] acct_interactive)) ! 0 = 2"
  by (simp add: acct_interactive_eq gn_max_def threshold_step_def add_rdp_loss_def gate_def
      confident_student_def np_iadd_def pt_max_def pt_argmax_def pt_normal_def
      pt_sub_scaled_def Let_def basic_mode_def confident_mode_def interactive_mode_def
      lib_example_def draws_example_def length_get_orders_short)

subsection \<open>Basic mode and the release noise\<close>

text \<open>
  In basic mode no call returns \<^verbatim>\<open>None\<close>, and the calls of the round are the two of the
  release cost, \<open>get_log_q\<close> and \<open>rdp_max_vote\<close>; \<open>rdp_threshold\<close> is not called.
\<close>

lemma gn_max_basic:
  assumes "threshold_mode s = basic_mode"
  shows "fst (gn_max L d votes preds s) \<noteq> Inr None \<and>
         ext_calls (snd (gn_max L d votes preds s)) =
           ext_calls s @ [Call_get_log_q votes (Some (sigma_votes s)),
             Call_rdp_max_vote (Some (sigma_votes s)) (orders s)
               (get_log_q L votes (Some (sigma_votes s)))]"
  using assms
  by (simp add: gn_max_def threshold_step_def add_rdp_loss_def Let_def split: sum.splits)

text \<open>Adding the same constant to every entry does not change the argmax.\<close>

lemma foldl_max_shift:
  "foldl max (x + c) (map (\<lambda>y. y + c) xs) = foldl max x xs + (c::real)"
proof (induction xs arbitrary: x)
  case Nil
  show ?case by simp
next
  case (Cons y ys)
  have "max (x + c) (y + c) = max x y + c" by (simp add: max_def)
  with Cons.IH[of "max x y"] show ?case by simp
qed

lemma takeWhile_shift:
  "length (takeWhile (\<lambda>y. y \<noteq> m + c) (map (\<lambda>y. y + c) v)) =
     length (takeWhile (\<lambda>y. y \<noteq> (m::real)) v)"
  by (induction v) simp_all

lemma pt_argmax_shift: "pt_argmax (map (\<lambda>y. y + c) v) = pt_argmax v"
proof (cases v)
  case Nil
  then show ?thesis by (simp add: pt_argmax_def)
next
  case (Cons x xs)
  have "pt_argmax (map (\<lambda>y. y + c) v) =
          Inr (length (takeWhile (\<lambda>y. y \<noteq> foldl max x xs + c) (map (\<lambda>y. y + c) v)))"
    unfolding Cons by (simp add: pt_argmax_def foldl_max_shift)
  also have "\<dots> = Inr (length (takeWhile (\<lambda>y. y \<noteq> foldl max x xs) v))"
    by (simp only: takeWhile_shift)
  also have "\<dots> = pt_argmax v" unfolding Cons by (simp add: pt_argmax_def)
  finally show ?thesis .
qed

lemma noise_of_ones:
  "map2 (+) votes (map (\<lambda>i. ones_like votes ! i + sd * z i) [0..<length votes]) =
     map (\<lambda>y. y + 1) (map2 (+) votes (map (\<lambda>i. sd * z i) [0..<length votes]))"
  by (rule nth_equalityI) (simp_all add: ones_like_def)

text \<open>
  Whenever \<open>gn_max\<close> releases a teacher consensus label, in any mode, the label is the
  argmax of the votes plus \<open>sigma_thresh\<close> times the standard-normal draws: the mean of
  ones that the code gives the noise shifts every class alike and so does not move the
  argmax, and the scale is \<open>sigma_thresh\<close>, not \<open>sigma_votes\<close>.
\<close>

lemma gn_max_released_label:
  assumes "gn_max L d votes preds s = (Inr (Some a), s')"
    and "snd (snd (last (votes_log s')))"
  shows "\<exists>sd. sigma_thresh s = Some sd \<and> 0 \<le> sd \<and>
           pt_argmax (map2 (+) votes (map (\<lambda>i. sd * vote_z d i) [0..<length votes])) = Inr a"
proof -
  obtain r s1 where ts: "threshold_step L d votes preds s = (r, s1)" by fastforce
  have st: "sigma_thresh s1 = sigma_thresh s"
    using ts by (auto simp: threshold_step_def add_rdp_loss_def Let_def
        split: if_splits sum.splits prod.splits)
  from assms(1) ts obtain tv rel ret where r: "r = Inr (tv, rel, ret)"
    by (cases r) (auto simp: gn_max_def)
  show ?thesis
  proof (cases rel)
    case False
    with assms ts r show ?thesis by (auto simp: gn_max_def Let_def)
  next
    case True
    with assms(1) ts r st obtain sd where sd: "sigma_thresh s = Some sd" "0 \<le> sd"
      and a: "pt_argmax (map2 (+) votes
                 (map (\<lambda>i. ones_like votes ! i + sd * vote_z d i) [0..<length (ones_like votes)])) = Inr a"
      by (auto simp: gn_max_def Let_def add_rdp_loss_def pt_normal_vec_def
          split: sum.splits prod.splits option.splits if_splits)
    have "length (ones_like votes) = length votes" by (simp add: ones_like_def)
    with a have "pt_argmax (map2 (+) votes (map (\<lambda>i. sd * vote_z d i) [0..<length votes])) = Inr a"
      by (simp only: noise_of_ones pt_argmax_shift)
    with sd show ?thesis by blast
  qed
qed

text \<open>
  C8, where the code departs from it: the release noise is drawn with \<open>sigma_thresh\<close>,
  which basic mode does not require. On an accountant constructed in basic mode with the
  default \<^verbatim>\<open>sigma_thresh=None\<close> the call charges the release cost, appends to the log and
  then raises TypeError instead of returning a label.
\<close>

theorem basic_default_release_raises:
  "PATEPyTorch_init (1 / 100000) 1 5 1 ''basic'' None None None True = Inr acct_basic_default \<and>
   threshold_mode acct_basic_default = basic_mode \<and>
   gn_max lib_example draws_example [10, 0, 0] [1, 0, 0] acct_basic_default =
     (Inl TypeError,
      acct_basic_default\<lparr>rdp_eps_by_order := replicate (length (get_orders True)) 1,
        votes_log := [([10, 0, 0], [10, 0, 0], True)],
        ext_calls := [Call_get_log_q [10, 0, 0] (Some 1),
                      Call_rdp_max_vote (Some 1) (get_orders True) [10, 0, 0]]\<rparr>)"
  apply (intro conjI)
    apply (simp add: acct_basic_default_def PATEPyTorch_init_def get_threshold_mode_def modes_def)
   apply (simp add: acct_basic_default_eq)
  apply (simp add: acct_basic_default_eq gn_max_defs)
  done

text \<open>
  C4, where the code departs from it: with \<open>sigma_votes = 1\<close> and \<open>sigma_thresh = 10\<close> the
  released label is \<open>1\<close>, the argmax of the votes plus noise of mean \<open>1\<close> and standard
  deviation \<open>sigma_thresh\<close>, while for the same draws the argmax of the votes plus
  zero-mean noise of standard deviation \<open>sigma_votes\<close> is \<open>0\<close>.
\<close>

theorem release_noise_uses_sigma_thresh:
  "PATEPyTorch_init (1 / 100000) 1 5 1 ''basic'' None None (Some 10) True = Inr acct_basic \<and>
   sigma_votes acct_basic = 1 \<and>
   fst (gn_max lib_example draws_example [1, 0] [1, 0] acct_basic) = Inr (Some 1) \<and>
   pt_normal_vec [0, 0] (Some (sigma_votes acct_basic)) (vote_z draws_example) = Inr [0, 1 / 2] \<and>
   pt_argmax (map2 (+) [1, 0] [0, 1 / 2]) = Inr 0"
  apply (intro conjI)
    apply (simp add: acct_basic_def PATEPyTorch_init_def get_threshold_mode_def modes_def)
   apply (simp add: acct_basic_eq)
    apply (simp add: acct_basic_eq gn_max_defs)
   apply (simp add: acct_basic_eq pt_normal_vec_def draws_example_def)
  apply (simp add: pt_argmax_def)
  done

subsection \<open>Releasing epsilon\<close>

lemma data_dependent_rdp_votes_log:
  "data_dependent_rdp L (s\<lparr>votes_log := l\<rparr>) =
     (fst (data_dependent_rdp L s), (snd (data_dependent_rdp L s))\<lparr>votes_log := l\<rparr>)"
  by (simp add: data_dependent_rdp_def split: option.splits prod.splits)

lemma release_record_votes_log:
  "release_record L z (s\<lparr>votes_log := l\<rparr>) order eps acc r =
     (fst (release_record L z s order eps acc r),
      (snd (release_record L z s order eps acc r))\<lparr>votes_log := l\<rparr>)"
  by (simp add: release_record_def Let_def split: prod.splits sum.splits option.splits)

lemma data_dependent_rdp_fields:
  "n_teachers (snd (data_dependent_rdp L s)) = n_teachers s"
  "votes_log (snd (data_dependent_rdp L s)) = votes_log s"
  by (simp_all add: data_dependent_rdp_def split: option.splits prod.splits)

text \<open>
  C2: over a non-empty log \<open>release_epsilon_fixed_order\<close> never falls off its loop, and
  what it returns or raises is what it returns or raises when the log holds the first
  record alone; the object is left the same too, the log apart. No later record
  contributes.
\<close>

theorem release_first_record_only:
  "fst (release_epsilon_fixed_order L z (s\<lparr>votes_log := r # rest\<rparr>)) =
     fst (release_epsilon_fixed_order L z (s\<lparr>votes_log := [r]\<rparr>)) \<and>
   (snd (release_epsilon_fixed_order L z (s\<lparr>votes_log := r # rest\<rparr>)))\<lparr>votes_log := [r]\<rparr> =
     snd (release_epsilon_fixed_order L z (s\<lparr>votes_log := [r]\<rparr>)) \<and>
   fst (release_epsilon_fixed_order L z (s\<lparr>votes_log := r # rest\<rparr>)) \<noteq> Inr None"
  by (simp add: release_epsilon_fixed_order_def data_dependent_rdp_votes_log
      release_record_votes_log Let_def split: prod.splits sum.splits)

text \<open>An instance: a log of two records, and the same result from its first record alone.\<close>

theorem release_first_record_only_witness:
  "fst (release_epsilon_fixed_order lib_example (1 / 2)
          (acct_logged\<lparr>votes_log :=
             ([10, 0, 0], [10, 0, 0], True) # [([2, 1, 0], [2, 1, 0], False)]\<rparr>)) =
     Inr (Some (4, 3, 2)) \<and>
   fst (release_epsilon_fixed_order lib_example (1 / 2)
          (acct_logged\<lparr>votes_log := [([10, 0, 0], [10, 0, 0], True)]\<rparr>)) =
     Inr (Some (4, 3, 2))"
proof -
  have "acct_logged\<lparr>votes_log :=
          ([10, 0, 0], [10, 0, 0], True) # [([2, 1, 0], [2, 1, 0], False)]\<rparr> = acct_logged"
    by (simp add: acct_logged_eq)
  then have "fst (release_epsilon_fixed_order lib_example (1 / 2)
          (acct_logged\<lparr>votes_log :=
             ([10, 0, 0], [10, 0, 0], True) # [([2, 1, 0], [2, 1, 0], False)]\<rparr>)) =
     Inr (Some (4, 3, 2))"
    by (simp add: release_acct_logged)
  with release_first_record_only[where L = lib_example and z = "1 / 2" and s = acct_logged
      and r = "([10, 0, 0], [10, 0, 0], True)" and rest = "[([2, 1, 0], [2, 1, 0], False)]"]
  show ?thesis by simp
qed

text \<open>
  C5, as the code has it: over an empty log (and a teacher count that is not negative)
  the method raises nothing. It runs the conversion, caching its result if none was
  cached, and returns \<^verbatim>\<open>None\<close>.
\<close>

theorem release_empty_log:
  assumes "votes_log s = []" and "0 \<le> n_teachers s"
  shows "release_epsilon_fixed_order L z s = (Inr None, snd (data_dependent_rdp L s))"
  using assms
  by (simp add: release_epsilon_fixed_order_def split_beta data_dependent_rdp_fields
      np_zeros_def Let_def)

theorem release_empty_log_witness:
  "votes_log acct_basic = [] \<and> 0 \<le> n_teachers acct_basic \<and>
   release_epsilon_fixed_order lib_example 0 acct_basic =
     (Inr None,
      acct_basic\<lparr>selected_order := Some 2, data_dependent_eps := Some 3,
        ext_calls := [Call_rdp_to_dp (get_orders True)
                        (replicate (length (get_orders True)) 0) (1 / 100000)]\<rparr>)"
  using release_empty_log[of acct_basic lib_example 0]
  by (simp add: acct_basic_eq data_dependent_rdp_def lib_example_def)

text \<open>
  Against C5 as stated: on a freshly constructed accountant, whose log is empty, the
  method returns \<^verbatim>\<open>None\<close> and raises no error.
\<close>

theorem release_empty_log_counterexample:
  "votes_log acct_basic_default = [] \<and>
   fst (release_epsilon_fixed_order lib_example 0 acct_basic_default) = Inr None"
  by (simp add: acct_basic_default_eq release_defs)

lemma release_record_order_calls:
  assumes "release_record L z s order eps acc r = (Inr res, s')"
    and "selected_order s = Some so"
  shows "\<exists>cs. s' = s\<lparr>ext_calls := ext_calls s @ cs\<rparr> \<and>
              filter takes_order cs = order_calls s r order so"
  using assms
  by (auto simp: release_record_def order_calls_def Let_def split: prod.splits sum.splits if_splits)

lemma release_loop_order_calls:
  assumes "release_loop L z s order eps acc (r # rest) = (Inr (Some res), s')"
    and "selected_order s = Some so"
  shows "\<exists>cs. s' = s\<lparr>ext_calls := ext_calls s @ cs\<rparr> \<and>
              filter takes_order cs = order_calls s r order so"
proof -
  from assms(1) obtain res0 where "release_record L z s order eps acc r = (Inr res0, s')"
    by (auto split: prod.splits sum.splits)
  from release_record_order_calls[OF this assms(2)] show ?thesis .
qed

lemma order_calls_cong:
  assumes "threshold_mode t = threshold_mode s" "n_teachers t = n_teachers s"
    "sigma_thresh t = sigma_thresh s" "threshold_T t = threshold_T s"
    "sigma_votes t = sigma_votes s" "sigma_eps_release t = sigma_eps_release s"
  shows "order_calls t r order so = order_calls s r order so"
  using assms by (cases r) (simp add: order_calls_def)

text \<open>
  C10: on an accountant that has not run the conversion yet and has a non-empty log, a
  call that returns caches the order chosen by \<open>rdp_to_dp\<close>, but its calls of
  \<open>local_sensitivity\<close> and \<open>rdp_eps_release\<close> are made with the order \<^verbatim>\<open>None\<close>, read
  before the conversion ran, while \<open>beta\<close> is \<open>0.4\<close> divided by the cached order. The next
  call makes the same calls with the cached order.
\<close>

theorem first_release_passes_no_order:
  assumes "selected_order s = None" and "data_dependent_eps s = None"
    and "votes_log s = r # rest"
    and "release_epsilon_fixed_order L z s = (Inr (Some res), s1)"
    and "release_epsilon_fixed_order L z' s1 = (Inr (Some res'), s2)"
  shows "selected_order s1 =
           Some (snd (rdp_to_dp L (orders s) (rdp_eps_by_order s) (target_delta s))) \<and>
         filter takes_order (drop (length (ext_calls s)) (ext_calls s1)) =
           order_calls s r None
             (snd (rdp_to_dp L (orders s) (rdp_eps_by_order s) (target_delta s))) \<and>
         filter takes_order (drop (length (ext_calls s1)) (ext_calls s2)) =
           order_calls s r
             (Some (snd (rdp_to_dp L (orders s) (rdp_eps_by_order s) (target_delta s))))
             (snd (rdp_to_dp L (orders s) (rdp_eps_by_order s) (target_delta s)))"
proof -
  define eps where "eps = fst (rdp_to_dp L (orders s) (rdp_eps_by_order s) (target_delta s))"
  define so where "so = snd (rdp_to_dp L (orders s) (rdp_eps_by_order s) (target_delta s))"
  define c where "c = Call_rdp_to_dp (orders s) (rdp_eps_by_order s) (target_delta s)"
  define t where "t = s\<lparr>selected_order := Some so, data_dependent_eps := Some eps,
                        ext_calls := ext_calls s @ [c]\<rparr>"
  have dd: "data_dependent_rdp L s = (eps, t)"
    using assms(2) by (simp add: data_dependent_rdp_def eps_def so_def c_def t_def split_beta)
  from assms(4) obtain acc where
    l1: "release_loop L z t None eps acc (r # rest) = (Inr (Some res), s1)"
    using assms(1,3) dd
    by (auto simp: release_epsilon_fixed_order_def t_def split: sum.splits)
  have tso: "selected_order t = Some so" by (simp add: t_def)
  from release_loop_order_calls[OF l1 tso] obtain cs where
    s1: "s1 = t\<lparr>ext_calls := ext_calls t @ cs\<rparr>"
    and f1: "filter takes_order cs = order_calls t r None so" by blast
  have oc1: "order_calls t r None so = order_calls s r None so"
    by (rule order_calls_cong) (simp_all add: t_def)
  have "ext_calls s1 = ext_calls s @ c # cs" by (simp add: s1 t_def)
  then have "filter takes_order (drop (length (ext_calls s)) (ext_calls s1)) =
               filter takes_order cs" by (simp add: c_def)
  with f1 oc1 have c1: "filter takes_order (drop (length (ext_calls s)) (ext_calls s1)) =
                          order_calls s r None so" by simp
  have dd1: "data_dependent_rdp L s1 = (eps, s1)"
    by (simp add: data_dependent_rdp_def s1 t_def)
  from assms(5) obtain acc' where
    l2: "release_loop L z' s1 (Some so) eps acc' (r # rest) = (Inr (Some res'), s2)"
    using assms(3) dd1
    by (auto simp: release_epsilon_fixed_order_def s1 t_def split: sum.splits)
  have s1so: "selected_order s1 = Some so" by (simp add: s1 t_def)
  from release_loop_order_calls[OF l2 s1so] obtain cs' where
    s2: "s2 = s1\<lparr>ext_calls := ext_calls s1 @ cs'\<rparr>"
    and f2: "filter takes_order cs' = order_calls s1 r (Some so) so" by blast
  have oc2: "order_calls s1 r (Some so) so = order_calls s r (Some so) so"
    by (rule order_calls_cong) (simp_all add: s1 t_def)
  have "ext_calls s2 = ext_calls s1 @ cs'" by (subst s2) simp
  then have "filter takes_order (drop (length (ext_calls s1)) (ext_calls s2)) =
               filter takes_order cs'" by simp
  with f2 oc2 have c2: "filter takes_order (drop (length (ext_calls s1)) (ext_calls s2)) =
                          order_calls s r (Some so) so" by simp
  from s1so c1 c2 show ?thesis unfolding so_def by simp
qed

theorem first_release_passes_no_order_witness:
  "selected_order acct_logged = None \<and> data_dependent_eps acct_logged = None \<and>
   votes_log acct_logged = ([10, 0, 0], [10, 0, 0], True) # [([2, 1, 0], [2, 1, 0], False)] \<and>
   fst (release_epsilon_fixed_order lib_example (1 / 2) acct_logged) = Inr (Some (4, 3, 2)) \<and>
   fst (release_epsilon_fixed_order lib_example (1 / 2) acct_released) =
     Inr (Some (26 / 5, 16 / 5, 4)) \<and>
   selected_order acct_released = Some 2 \<and>
   filter takes_order (drop (length (ext_calls acct_logged)) (ext_calls acct_released)) =
     [Call_local_sensitivity [10, 0, 0] 5 (Some 1) None (Some (Some 5)),
      Call_local_sensitivity [10, 0, 0] 5 (Some 1) None None,
      Call_rdp_eps_release (1 / 5) 1 None] \<and>
   filter takes_order (drop (length (ext_calls acct_released))
       (ext_calls (snd (release_epsilon_fixed_order lib_example (1 / 2) acct_released)))) =
     [Call_local_sensitivity [10, 0, 0] 5 (Some 1) (Some 2) (Some (Some 5)),
      Call_local_sensitivity [10, 0, 0] 5 (Some 1) (Some 2) None,
      Call_rdp_eps_release (1 / 5) 1 (Some 2)]"
proof -
  have h1: "selected_order acct_logged = None" and h2: "data_dependent_eps acct_logged = None"
    and h3: "votes_log acct_logged =
               ([10, 0, 0], [10, 0, 0], True) # [([2, 1, 0], [2, 1, 0], False)]"
    by (simp_all add: acct_logged_eq)
  have h4: "release_epsilon_fixed_order lib_example (1 / 2) acct_logged =
              (Inr (Some (4, 3, 2)), acct_released)"
    by (simp add: acct_released_def release_acct_logged)
  have h5: "release_epsilon_fixed_order lib_example (1 / 2) acct_released =
              (Inr (Some (26 / 5, 16 / 5, 4)),
               snd (release_epsilon_fixed_order lib_example (1 / 2) acct_released))"
    by (simp add: release_acct_released)
  have so: "snd (rdp_to_dp lib_example (orders acct_logged) (rdp_eps_by_order acct_logged)
                   (target_delta acct_logged)) = 2"
    by (simp add: lib_example_def)
  have oc: "order_calls acct_logged ([10, 0, 0], [10, 0, 0], True) order 2 =
              [Call_local_sensitivity [10, 0, 0] 5 (Some 1) order (Some (Some 5)),
               Call_local_sensitivity [10, 0, 0] 5 (Some 1) order None,
               Call_rdp_eps_release (1 / 5) 1 order]" for order
    by (simp add: order_calls_def acct_logged_eq basic_mode_def confident_mode_def)
  have h5': "fst (release_epsilon_fixed_order lib_example (1 / 2) acct_released) =
               Inr (Some (26 / 5, 16 / 5, 4))"
    by (simp add: release_acct_released)
  from first_release_passes_no_order[OF h1 h2 h3 h4 h5] h1 h2 h3 h4 h5'
  show ?thesis unfolding so oc by simp
qed

subsection \<open>The order grid\<close>

lemma np_round_of_int: "np_round (of_int n) = of_int n"
  by (simp add: np_round_def)

lemma np_round_between:
  assumes "real_of_int n - 1 / 2 < x" and "x < real_of_int n + 1 / 2"
  shows "np_round x = real_of_int n"
proof (cases "x < real_of_int n")
  case True
  with assms have "\<lfloor>x\<rfloor> = n - 1" by (intro floor_unique) auto
  with assms True show ?thesis by (simp add: np_round_def)
next
  case False
  with assms have "\<lfloor>x\<rfloor> = n" by (intro floor_unique) auto
  with assms False show ?thesis by (simp add: np_round_def)
qed

lemma logspace_short_elem:
  "10 powr (log 10 50 + real k * ((log 10 1000 - log 10 50) / 19)) = 50 * 20 powr (real k / 19)"
proof -
  have d: "log 10 1000 - log 10 50 = log 10 20"
    using log_divide[where a = 10 and x = 1000 and y = 50] by simp
  have "real k * (log 10 20 / 19) = log 10 20 * (real k / 19)" by simp
  then have "10 powr (real k * (log 10 20 / 19)) = (10 powr log 10 20) powr (real k / 19)"
    by (simp only: powr_powr)
  also have "\<dots> = 20 powr (real k / 19)" by simp
  finally have e: "10 powr (real k * (log 10 20 / 19)) = 20 powr (real k / 19)" .
  have "10 powr (log 10 50 + real k * ((log 10 1000 - log 10 50) / 19)) =
          10 powr (log 10 50) * 10 powr (real k * (log 10 20 / 19))"
    unfolding d by (rule powr_add)
  also have "\<dots> = 50 * 20 powr (real k / 19)" unfolding e by simp
  finally show ?thesis .
qed

lemma pow19_short: "(2 * (50 * 20 powr (real k / 19))) ^ 19 = 100 ^ 19 * 20 ^ k"
proof -
  have "(20 powr (real k / 19)) ^ 19 = 20 powr (real k / 19 * 19)"
    by (simp add: powr_powr powr_realpow[symmetric] del: powr_realpow)
  also have "\<dots> = 20 ^ k" by (simp add: powr_realpow)
  finally have "(20 powr (real k / 19)) ^ 19 = 20 ^ k" .
  then show ?thesis by (simp add: power_mult_distrib)
qed

lemma np_round_short:
  assumes "(2 * real_of_int n - 1) ^ 19 < 100 ^ 19 * 20 ^ k"
    and "(100::real) ^ 19 * 20 ^ k < (2 * real_of_int n + 1) ^ 19"
    and "1 \<le> n"
  shows "np_round (50 * 20 powr (real k / 19)) = real_of_int n"
proof -
  let ?x = "50 * 20 powr (real k / 19)"
  have x0: "0 < ?x" by simp
  from assms(1) have "(2 * real_of_int n - 1) ^ 19 < (2 * ?x) ^ 19" by (simp only: pow19_short)
  then have l: "2 * real_of_int n - 1 < 2 * ?x"
    by (rule power_less_imp_less_base) simp
  from assms(2) have "(2 * ?x) ^ 19 < (2 * real_of_int n + 1) ^ 19" by (simp only: pow19_short)
  then have u: "2 * ?x < 2 * real_of_int n + 1"
    by (rule power_less_imp_less_base) (use assms(3) in simp)
  from l u show ?thesis by (intro np_round_between) auto
qed


lemma upt_20: "[0..<20] = [0, 1, 2, 3, 4, 5, 6, 7, 8, 9, 10, 11, 12, 13, 14, 15, 16, 17, 18, 19::nat]"
  by (simp add: upt_rec)

lemma np_round_short_values:
  "np_round (50 * 20 powr (real 0 / 19)) = 50"
  "np_round (50 * 20 powr (real 1 / 19)) = 59"
  "np_round (50 * 20 powr (real 2 / 19)) = 69"
  "np_round (50 * 20 powr (real 3 / 19)) = 80"
  "np_round (50 * 20 powr (real 4 / 19)) = 94"
  "np_round (50 * 20 powr (real 5 / 19)) = 110"
  "np_round (50 * 20 powr (real 6 / 19)) = 129"
  "np_round (50 * 20 powr (real 7 / 19)) = 151"
  "np_round (50 * 20 powr (real 8 / 19)) = 177"
  "np_round (50 * 20 powr (real 9 / 19)) = 207"
  "np_round (50 * 20 powr (real 10 / 19)) = 242"
  "np_round (50 * 20 powr (real 11 / 19)) = 283"
  "np_round (50 * 20 powr (real 12 / 19)) = 332"
  "np_round (50 * 20 powr (real 13 / 19)) = 388"
  "np_round (50 * 20 powr (real 14 / 19)) = 455"
  "np_round (50 * 20 powr (real 15 / 19)) = 532"
  "np_round (50 * 20 powr (real 16 / 19)) = 623"
  "np_round (50 * 20 powr (real 17 / 19)) = 730"
  "np_round (50 * 20 powr (real 18 / 19)) = 854"
  "np_round (50 * 20 powr (real 19 / 19)) = 1000"
proof -
  show "np_round (50 * 20 powr (real 0 / 19)) = 50"
    using np_round_short[where k = 0 and n = 50] by simp
  show "np_round (50 * 20 powr (real 1 / 19)) = 59"
    using np_round_short[where k = 1 and n = 59] by simp
  show "np_round (50 * 20 powr (real 2 / 19)) = 69"
    using np_round_short[where k = 2 and n = 69] by simp
  show "np_round (50 * 20 powr (real 3 / 19)) = 80"
    using np_round_short[where k = 3 and n = 80] by simp
  show "np_round (50 * 20 powr (real 4 / 19)) = 94"
    using np_round_short[where k = 4 and n = 94] by simp
  show "np_round (50 * 20 powr (real 5 / 19)) = 110"
    using np_round_short[where k = 5 and n = 110] by simp
  show "np_round (50 * 20 powr (real 6 / 19)) = 129"
    using np_round_short[where k = 6 and n = 129] by simp
  show "np_round (50 * 20 powr (real 7 / 19)) = 151"
    using np_round_short[where k = 7 and n = 151] by simp
  show "np_round (50 * 20 powr (real 8 / 19)) = 177"
    using np_round_short[where k = 8 and n = 177] by simp
  show "np_round (50 * 20 powr (real 9 / 19)) = 207"
    using np_round_short[where k = 9 and n = 207] by simp
  show "np_round (50 * 20 powr (real 10 / 19)) = 242"
    using np_round_short[where k = 10 and n = 242] by simp
  show "np_round (50 * 20 powr (real 11 / 19)) = 283"
    using np_round_short[where k = 11 and n = 283] by simp
  show "np_round (50 * 20 powr (real 12 / 19)) = 332"
    using np_round_short[where k = 12 and n = 332] by simp
  show "np_round (50 * 20 powr (real 13 / 19)) = 388"
    using np_round_short[where k = 13 and n = 388] by simp
  show "np_round (50 * 20 powr (real 14 / 19)) = 455"
    using np_round_short[where k = 14 and n = 455] by simp
  show "np_round (50 * 20 powr (real 15 / 19)) = 532"
    using np_round_short[where k = 15 and n = 532] by simp
  show "np_round (50 * 20 powr (real 16 / 19)) = 623"
    using np_round_short[where k = 16 and n = 623] by simp
  show "np_round (50 * 20 powr (real 17 / 19)) = 730"
    using np_round_short[where k = 17 and n = 730] by simp
  show "np_round (50 * 20 powr (real 18 / 19)) = 854"
    using np_round_short[where k = 18 and n = 854] by simp
  show "np_round (50 * 20 powr (real 19 / 19)) = 1000"
    using np_round_short[where k = 19 and n = 1000] by simp
qed


lemma round_arange_short: "map np_round (np_arange 2 (50 + 1) 1) = map real [2..<51]"
proof -
  have "np_arange 2 (50 + 1) 1 = map (\<lambda>i. real_of_int (int (i + 2))) [0..<49]"
    by (simp add: np_arange_def)
  then have "map np_round (np_arange 2 (50 + 1) 1) = map (\<lambda>i. real (i + 2)) [0..<49]"
    by (simp add: np_round_of_int comp_def del: of_int_of_nat_eq of_int_add)
  also have "\<dots> = map real (map (\<lambda>i. i + 2) [0..<49])"
    by (simp only: map_map comp_def)
  also have "map (\<lambda>i. i + 2) [0..<49] = [2..<49 + 2]" by (rule map_add_upt)
  also have "49 + 2 = (51::nat)" by simp
  finally show ?thesis .
qed

lemma logspace_short_elem':
  "10 powr (log 10 50 + real k * (log 10 1000 - log 10 50) / 19) = 50 * 20 powr (real k / 19)"
  using logspace_short_elem[of k] by simp

lemma round_logspace_short:
  "map np_round (np_logspace (log 10 50) (log 10 1000) 20) = short_tail"
proof -
  have "map np_round (np_logspace (log 10 50) (log 10 1000) 20) =
          map (\<lambda>k. np_round (50 * 20 powr (real k / 19))) [0..<20]"
    by (simp add: np_logspace_def np_linspace_def logspace_short_elem' comp_def)
  also have "\<dots> = short_tail"
    unfolding upt_20 short_tail_def using np_round_short_values by simp
  finally show ?thesis .
qed

lemma get_orders_short: "get_orders True = map real [2..<51] @ short_tail"
  unfolding get_orders_def round_arange_short[symmetric] round_logspace_short[symmetric]
  by simp


lemma length_arange_full: "length (np_arange 2 101 (1 / 2)) = 198"
  by (simp add: np_arange_def)

lemma length_logspace_full: "length (np_logspace (log 10 100) (log 10 500) 100) = 100"
  by (simp add: np_logspace_def np_linspace_def)

lemma sorted_wrt_map_upt:
  assumes "\<And>i j. i < j \<Longrightarrow> j < n \<Longrightarrow> f i < (f j :: real)"
  shows "sorted_wrt (<) (map f [0..<n])"
  using assms by (simp add: sorted_wrt_iff_nth_less)

lemma sorted_arange_full: "sorted_wrt (<) (np_arange 2 101 (1 / 2))"
  unfolding np_arange_def by (rule sorted_wrt_map_upt) simp

lemma log_100_500: "log 10 100 < log 10 500"
  by simp

lemma sorted_logspace_full: "sorted_wrt (<) (np_logspace (log 10 100) (log 10 500) 100)"
proof -
  have "sorted_wrt (<)
          (map (\<lambda>i. 10 powr (log 10 100 + real i * ((log 10 500 - log 10 100) / real (100 - 1))))
             [0..<100])"
  proof (rule sorted_wrt_map_upt)
    fix i j :: nat
    assume "i < j"
    moreover have "0 < (log 10 500 - log 10 100) / real (100 - 1)"
      using log_100_500 by simp
    ultimately have "real i * ((log 10 500 - log 10 100) / real (100 - 1)) <
                     real j * ((log 10 500 - log 10 100) / real (100 - 1))"
      by (simp only: mult_less_cancel_right_pos of_nat_less_iff)
    then show "10 powr (log 10 100 + real i * ((log 10 500 - log 10 100) / real (100 - 1))) <
               10 powr (log 10 100 + real j * ((log 10 500 - log 10 100) / real (100 - 1)))"
      by (simp only: powr_less_cancel_iff add_less_cancel_left)
  qed
  then show ?thesis by (simp only: np_logspace_def np_linspace_def map_map comp_def)
qed

lemma last_logspace_full: "last (np_logspace (log 10 100) (log 10 500) 100) = 500"
proof -
  have "np_logspace (log 10 100) (log 10 500) 100 \<noteq> []"
    using length_logspace_full by auto
  then have "last (np_logspace (log 10 100) (log 10 500) 100) =
               np_logspace (log 10 100) (log 10 500) 100 ! 99"
    by (simp add: last_conv_nth length_logspace_full)
  also have "\<dots> = 10 powr (log 10 100 + 99 * ((log 10 500 - log 10 100) / 99))"
    by (simp add: np_logspace_def np_linspace_def)
  also have "log 10 100 + 99 * ((log 10 500 - log 10 100) / 99) = log 10 500"
    by (simp add: diff_divide_distrib)
  also have "10 powr (log 10 500) = (500::real)" by simp
  finally show ?thesis .
qed

lemma hd_logspace_full: "np_logspace (log 10 100) (log 10 500) 100 ! 0 = 100"
  by (simp add: np_logspace_def np_linspace_def)


lemma take_drop_short:
  "take 49 (get_orders True) = map real [2..<51]" "drop 49 (get_orders True) = short_tail"
  by (simp_all add: get_orders_short)

lemma take_drop_full:
  "take 198 (get_orders False) = np_arange 2 101 (1 / 2)"
  "drop 198 (get_orders False) = np_logspace (log 10 100) (log 10 500) 100"
  by (simp_all add: get_orders_def length_arange_full)

lemma arange_short_in_full: "set (map real [2..<51]) \<subseteq> set (np_arange 2 101 (1 / 2))"
proof
  fix x assume "x \<in> set (map real [2..<51])"
  then obtain k where k: "2 \<le> k" "k < 51" and x: "x = real k" by auto
  have "2 * (k - 2) < 198" using k by simp
  moreover have "x = 2 + real (2 * (k - 2)) * (1 / 2)"
    using k x by (simp add: of_nat_diff diff_divide_distrib)
  ultimately have "x \<in> (\<lambda>i. 2 + real i * (1 / 2)) ` {0..<198}" by (intro image_eqI[where x = "2 * (k - 2)"]) auto
  then show "x \<in> set (np_arange 2 101 (1 / 2))"
    by (simp add: np_arange_def)
qed

text \<open>
  C9, as the code has it (in exact arithmetic). The short grid has 69 elements, the
  integers \<open>2, \<dots>, 50\<close> followed by twenty rounded log-spaced values from \<open>50\<close> to \<open>1000\<close>:
  it is non-decreasing, starts at \<open>2\<close> and ends at \<open>1000\<close>, and each of the two parts is
  strictly increasing. The full grid has 298 elements, the values \<open>2, 2.5, \<dots>, 100.5\<close>
  followed by a hundred log-spaced values: each of the two parts is strictly increasing,
  the grid starts at \<open>2\<close> and ends at \<open>500\<close>, and its linear part contains the linear
  part of the short grid.
\<close>

theorem order_grids:
  "length (get_orders True) = 69 \<and>
   sorted (get_orders True) \<and>
   hd (get_orders True) = 2 \<and> last (get_orders True) = 1000 \<and>
   sorted_wrt (<) (take 49 (get_orders True)) \<and>
   sorted_wrt (<) (drop 49 (get_orders True)) \<and>
   length (get_orders False) = 298 \<and>
   take 198 (get_orders False) = np_arange 2 101 (1 / 2) \<and>
   sorted_wrt (<) (take 198 (get_orders False)) \<and>
   sorted_wrt (<) (drop 198 (get_orders False)) \<and>
   hd (get_orders False) = 2 \<and> last (get_orders False) = 500 \<and>
   set (take 49 (get_orders True)) \<subseteq> set (take 198 (get_orders False))"
proof (intro conjI)
  show "length (get_orders True) = 69" by (simp add: get_orders_short short_tail_def)
  show "sorted (get_orders True)"
    by (simp add: get_orders_short short_tail_def sorted_append)
  show "hd (get_orders True) = 2" by (simp add: get_orders_short)
  show "last (get_orders True) = 1000" by (simp add: get_orders_short short_tail_def)
  show "sorted_wrt (<) (take 49 (get_orders True))"
    unfolding take_drop_short by (simp add: sorted_wrt_map)
  show "sorted_wrt (<) (drop 49 (get_orders True))"
    unfolding take_drop_short by (simp add: short_tail_def)
  show "length (get_orders False) = 298"
    by (simp add: get_orders_def length_arange_full length_logspace_full)
  show "take 198 (get_orders False) = np_arange 2 101 (1 / 2)" by (rule take_drop_full)
  show "sorted_wrt (<) (take 198 (get_orders False))"
    unfolding take_drop_full by (rule sorted_arange_full)
  show "sorted_wrt (<) (drop 198 (get_orders False))"
    unfolding take_drop_full by (rule sorted_logspace_full)
  show "hd (get_orders False) = 2"
    by (simp add: get_orders_def np_arange_def hd_map upt_conv_Cons)
  show "last (get_orders False) = 500"
  proof -
    have "np_logspace (log 10 100) (log 10 500) 100 \<noteq> []"
      using length_logspace_full by auto
    then show ?thesis by (simp add: get_orders_def last_logspace_full)
  qed
  show "set (take 49 (get_orders True)) \<subseteq> set (take 198 (get_orders False))"
    unfolding take_drop_short take_drop_full by (rule arange_short_in_full)
qed

text \<open>
  Against C9 as stated: neither grid is strictly increasing. The short grid holds \<open>50\<close>
  twice, as the last value of its linear part and the first of its log-spaced part; in the
  full grid \<open>100.5\<close>, the last value of the linear part, is followed by \<open>100\<close>.
\<close>

theorem order_grids_counterexample:
  "get_orders True ! 48 = 50 \<and> get_orders True ! 49 = 50 \<and>
   \<not> sorted_wrt (<) (get_orders True) \<and>
   get_orders False ! 197 = 201 / 2 \<and> get_orders False ! 198 = 100 \<and>
   \<not> sorted_wrt (<) (get_orders False)"
proof -
  have a: "get_orders True ! 48 = 50" and b: "get_orders True ! 49 = 50"
    by (simp_all add: get_orders_short short_tail_def nth_append)
  have c: "get_orders False ! 197 = 201 / 2"
    by (simp add: get_orders_def nth_append length_arange_full) (simp add: np_arange_def)
  have d: "get_orders False ! 198 = 100"
    by (simp add: get_orders_def nth_append length_arange_full hd_logspace_full)
  have l1: "length (get_orders True) = 69" by (simp add: get_orders_short short_tail_def)
  have l2: "length (get_orders False) = 298"
    by (simp add: get_orders_def length_arange_full length_logspace_full)
  have e: "\<not> sorted_wrt (<) (get_orders True)"
  proof
    assume "sorted_wrt (<) (get_orders True)"
    then have "get_orders True ! 48 < get_orders True ! 49"
      by (rule sorted_wrt_nth_less) (simp_all add: l1)
    with a b show False by simp
  qed
  have f: "\<not> sorted_wrt (<) (get_orders False)"
  proof
    assume "sorted_wrt (<) (get_orders False)"
    then have "get_orders False ! 197 < get_orders False ! 198"
      by (rule sorted_wrt_nth_less) (simp_all add: l2)
    with c d show False by simp
  qed
  from a b c d e f show ?thesis by simp
qed

end
